theory Spec2Isabelle
  imports
    Complex_Main
    "HOL-Library.Multiset"
    "HOL-Library.Char_ord"
    "HOL-Library.List_Lexorder"
    "HOL-Library.Product_Lexorder"
begin

section \<open>The salary dashboard (Streamlit\_app.py)\<close>

text \<open>
  The program is one script, run top to bottom on every interaction: it loads a table,
  adds the column \<open>country_name\<close>, reads three sidebar widgets, filters the table and
  renders a line chart, a bar chart with a summary card, and a second bar chart.

  The table is a list of rows in file order; a salary cell may be empty, every other
  cell holds a value of its column's type. The widgets' values are inputs (the selection). The calls
  into pandas are modelled by what they compute on such a table; an exception of the
  script is a value of \<open>py_error\<close>. The country registry of pycountry and the
  sorting routine behind \<open>sort_values\<close> are not part of the script: both are
  parameters.
\<close>

subsection \<open>Data\<close>

datatype py_error = AttributeError | LookupError | IndexError | ValueError

text \<open>
  One line of salaries.csv, with the columns the script reads. The salary is the
  integer written in the file, or \<open>None\<close> where the cell is empty (pandas reads NaN).
\<close>

record row =
  work_year :: int
  experience_level :: string
  employee_residence :: string
  job_title :: string
  salary_in_usd :: "int option"

text \<open>A line after \<open>df["country_name"] = ...\<close>: the same columns and one more.\<close>

record erow = row +
  country_name :: string

text \<open>The sidebar: a select box and two multi-selects.\<close>

record selection =
  selected_year :: int
  selected_country :: "string list"
  selected_exp :: "string list"

subsection \<open>Country code to country name\<close>

text \<open>
  An entry of pycountry's database; the script reads its \<open>name\<close> only.
  \<open>pycountry.countries.get(alpha_2=code)\<close> is the parameter \<open>get\<close>: it returns an
  entry, returns \<open>None\<close>, or raises.
\<close>

record country =
  alpha_2 :: string
  name :: string

type_synonym registry = "string \<Rightarrow> py_error + country option"

text \<open>\<open>obj.name\<close>: an attribute of \<open>None\<close> raises AttributeError.\<close>

definition getattr_name :: "country option \<Rightarrow> py_error + string" where
  "getattr_name obj = (case obj of None \<Rightarrow> Inl AttributeError | Some c \<Rightarrow> Inr (name c))"

text \<open>
  \<^verbatim>\<open>
  def code_to_country(code):
      try:
          return pycountry.countries.get(alpha_2=code).name
      except:
          return code
  \<close>
  The result is a sum as for every call that can raise; the bare \<open>except\<close> turns each
  error of the body into the return of \<open>code\<close>.
\<close>

definition code_to_country :: "registry \<Rightarrow> string \<Rightarrow> py_error + string" where
  "code_to_country get code =
     (case (case get code of Inl e \<Rightarrow> Inl e | Inr obj \<Rightarrow> getattr_name obj) of
        Inr n \<Rightarrow> Inr n
      | Inl e \<Rightarrow> Inr code)"

text \<open>\<open>Series.apply(f)\<close>: \<open>f\<close> on each value in order; the first exception ends it.\<close>

fun apply_series :: "('a \<Rightarrow> py_error + 'b) \<Rightarrow> 'a list \<Rightarrow> py_error + 'b list" where
  "apply_series f [] = Inr []"
| "apply_series f (x # xs) =
     (case f x of
        Inl e \<Rightarrow> Inl e
      | Inr y \<Rightarrow> (case apply_series f xs of Inl e \<Rightarrow> Inl e | Inr ys \<Rightarrow> Inr (y # ys)))"

text \<open>\<open>df["country_name"] = col\<close>: each row extended by its value of the new column.\<close>

definition add_country_name :: "row list \<Rightarrow> string list \<Rightarrow> erow list" where
  "add_country_name df col = map (\<lambda>(r, n). row.extend r (erow.fields n)) (zip df col)"

definition enrich :: "registry \<Rightarrow> row list \<Rightarrow> py_error + erow list" where
  "enrich get df =
     (case apply_series (code_to_country get) (map employee_residence df) of
        Inl e \<Rightarrow> Inl e
      | Inr col \<Rightarrow> Inr (add_country_name df col))"

text \<open>
  What is known of the ISO 3166 registry and used below: the codes it finds have two
  characters, and no display name has.
\<close>

definition iso_registry :: "registry \<Rightarrow> bool" where
  "iso_registry get \<longleftrightarrow>
     (\<forall>code c. get code = Inr (Some c) \<longrightarrow> length code = 2 \<and> length (name c) \<noteq> 2)"

subsection \<open>Sidebar options and the filtered table\<close>

text \<open>\<open>sorted(df[col].unique())\<close>: the options of a widget, and the default of a
  multi-select.\<close>

definition years :: "erow list \<Rightarrow> int list" where
  "years df = sort (remdups (map work_year df))"

definition countries :: "erow list \<Rightarrow> string list" where
  "countries df = sort (remdups (map country_name df))"

definition experience_levels :: "erow list \<Rightarrow> string list" where
  "experience_levels df = sort (remdups (map experience_level df))"

text \<open>\<open>Series.isin(values)\<close> and \<open>Series == v\<close>: one truth value per row.\<close>

definition isin :: "'a list \<Rightarrow> 'a list \<Rightarrow> bool list" where
  "isin col vals = map (\<lambda>x. x \<in> set vals) col"

definition eq_mask :: "'a list \<Rightarrow> 'a \<Rightarrow> bool list" where
  "eq_mask col v = map (\<lambda>x. x = v) col"

text \<open>\<open>a & b\<close> on two masks, and \<open>df[mask]\<close>: the rows whose mask value is true.\<close>

definition mask_and :: "bool list \<Rightarrow> bool list \<Rightarrow> bool list" where
  "mask_and a b = map (\<lambda>(x, y). x \<and> y) (zip a b)"

definition select_rows :: "'r list \<Rightarrow> bool list \<Rightarrow> 'r list" where
  "select_rows df bs = map fst (filter snd (zip df bs))"

text \<open>
  \<^verbatim>\<open>
  df_f = df[
      (df["work_year"] == selected_year) &
      (df["country_name"].isin(selected_country)) &
      (df["experience_level"].isin(selected_exp))
  ]
  \<close>
\<close>

definition df_f :: "erow list \<Rightarrow> selection \<Rightarrow> erow list" where
  "df_f df sel =
     select_rows df
       (mask_and
          (mask_and (eq_mask (map work_year df) (selected_year sel))
                    (isin (map country_name df) (selected_country sel)))
          (isin (map experience_level df) (selected_exp sel)))"

text \<open>Filtering by the year and nothing else, as the specification words it.\<close>

definition filter_year_only :: "erow list \<Rightarrow> int \<Rightarrow> erow list" where
  "filter_year_only df y = filter (\<lambda>r. work_year r = y) df"

subsection \<open>Group by and median\<close>

text \<open>
  \<open>df.groupby(key)\<close> with pandas' defaults: one group per distinct key, the groups in
  ascending order of the key (lexicographic on a pair of keys), the rows of a group in
  table order. \<open>[...]["salary_in_usd"]\<close> keeps that column of each group.
\<close>

definition groupby :: "('r \<Rightarrow> 'k::linorder) \<Rightarrow> 'r list \<Rightarrow> ('k \<times> 'r list) list" where
  "groupby key df = map (\<lambda>k. (k, filter (\<lambda>r. key r = k) df)) (sort (remdups (map key df)))"

definition salary_groups :: "(erow \<Rightarrow> 'k::linorder) \<Rightarrow> erow list \<Rightarrow> ('k \<times> int option list) list" where
  "salary_groups key df = map (\<lambda>(k, rs). (k, map salary_in_usd rs)) (groupby key df)"

text \<open>
  A float64 cell: a number, or NaN (\<open>None\<close>). A number of the salary column is an
  integer of the file converted to float64: the nearest number with a significand of
  53 bits, the one with the even significand when two are equally near. \<open>ulp_exp a\<close>
  is the exponent of the spacing of float64 at the magnitude \<open>a\<close>, and \<open>round53 x\<close>
  the integer that the conversion of \<open>x\<close> yields.
\<close>

type_synonym float64 = "rat option"

fun ulp_exp :: "nat \<Rightarrow> nat" where
  "ulp_exp a = (if a < 9007199254740992 then 0 else Suc (ulp_exp (a div 2)))"

definition round53 :: "int \<Rightarrow> int" where
  "round53 x =
     (let a = nat \<bar>x\<bar>; e = ulp_exp a; q = a div 2 ^ e; r = a mod 2 ^ e;
          up = (2 ^ e < 2 * r \<or> (2 * r = 2 ^ e \<and> odd q))
      in sgn x * int ((if up then q + 1 else q) * 2 ^ e))"

text \<open>The cells of a column that hold a value: pandas skips NaN in an aggregate.\<close>

definition present :: "'a option list \<Rightarrow> 'a list" where
  "present cells = concat (map (\<lambda>c. case c of None \<Rightarrow> [] | Some x \<Rightarrow> [x]) cells)"

text \<open>
  \<open>.median()\<close> of a group of the salary column: of the float64 values present, the
  middle one in sorted order; when their number is even, the float64 sum of the two
  middle ones, halved; NaN when no value is present.
\<close>

definition median :: "int option list \<Rightarrow> float64" where
  "median cells =
     (let s = sort (map round53 (present cells)); n = length s in
      if n = 0 then None
      else if odd n then Some (of_int (s ! (n div 2)))
      else Some (of_int (round53 (s ! (n div 2 - 1) + s ! (n div 2))) / 2))"

definition group_median :: "('k \<times> int option list) list \<Rightarrow> ('k \<times> float64) list" where
  "group_median gs = map (\<lambda>(k, vs). (k, median vs)) gs"

text \<open>
  The median as statistics defines it, without sorting: \<open>v\<close> is the value of rank \<open>k\<close>
  (counted from 0) of \<open>xs\<close> when at most \<open>k\<close> values are below it and more than \<open>k\<close>
  are not above it.
\<close>

definition has_rank :: "int list \<Rightarrow> nat \<Rightarrow> int \<Rightarrow> bool" where
  "has_rank xs k v \<longleftrightarrow>
     length (filter (\<lambda>x. x < v) xs) \<le> k \<and> k < length (filter (\<lambda>x. x \<le> v) xs)"

definition statistical_median :: "int list \<Rightarrow> rat \<Rightarrow> bool" where
  "statistical_median xs m \<longleftrightarrow>
     (let n = length xs in
      if odd n then (\<exists>v \<in> set xs. has_rank xs (n div 2) v \<and> m = of_int v)
      else (\<exists>a \<in> set xs. \<exists>b \<in> set xs.
              has_rank xs (n div 2 - 1) a \<and> has_rank xs (n div 2) b
              \<and> m = (of_int a + of_int b) / 2))"

text \<open>
  A group for which float64 is exact: it holds a salary, and every salary it holds is
  at most \<open>2 ^ 52\<close> in absolute value, so that the values and the sum of two of them
  are converted and added without rounding.
\<close>

definition exact_group :: "int option list \<Rightarrow> bool" where
  "exact_group cells \<longleftrightarrow>
     present cells \<noteq> [] \<and> (\<forall>x \<in> set (present cells). \<bar>x\<bar> \<le> 2 ^ 52)"

subsection \<open>The three aggregates\<close>

text \<open>
  \<^verbatim>\<open>
  trend = (
      df[df["experience_level"].isin(selected_exp)]
      .groupby(["work_year", "experience_level"])["salary_in_usd"]
      .median()
      .reset_index()
  )
  \<close>
  \<open>reset_index\<close> makes the keys columns again: a row of the result is the key with its
  median.
\<close>

definition trend :: "erow list \<Rightarrow> selection \<Rightarrow> ((int \<times> string) \<times> float64) list" where
  "trend df sel =
     group_median
       (salary_groups (\<lambda>r. (work_year r, experience_level r))
          (select_rows df (isin (map experience_level df) (selected_exp sel))))"

text \<open>
  \<open>Series.sort_values(ascending=False)\<close>: the rows that hold a number, largest first,
  then the rows that hold NaN. The script passes no \<open>kind\<close>, so pandas sorts with its
  default, quicksort, which fixes the order of the numbers and not the order of rows
  with equal numbers. The sort of the numbered rows is the parameter \<open>srt\<close>;
  \<open>sorter_ok\<close> is what every kind of sort gives, \<open>sorter_stable\<close> what only a stable
  one does.
\<close>

type_synonym sorter = "(string \<times> rat) list \<Rightarrow> (string \<times> rat) list"

definition sorter_ok :: "sorter \<Rightarrow> bool" where
  "sorter_ok srt \<longleftrightarrow>
     (\<forall>xs. mset (srt xs) = mset xs \<and> sorted_wrt (\<lambda>a b. snd b \<le> snd a) (srt xs))"

definition sorter_stable :: "sorter \<Rightarrow> bool" where
  "sorter_stable srt \<longleftrightarrow>
     (\<forall>xs v. filter (\<lambda>p. snd p = v) (srt xs) = filter (\<lambda>p. snd p = v) xs)"

definition non_nans :: "('k \<times> float64) list \<Rightarrow> ('k \<times> rat) list" where
  "non_nans s = concat (map (\<lambda>(k, c). case c of None \<Rightarrow> [] | Some v \<Rightarrow> [(k, v)]) s)"

definition nans :: "('k \<times> float64) list \<Rightarrow> ('k \<times> float64) list" where
  "nans s = filter (\<lambda>p. snd p = None) s"

definition sort_values_desc :: "sorter \<Rightarrow> (string \<times> float64) list \<Rightarrow> (string \<times> float64) list" where
  "sort_values_desc srt s = map (\<lambda>(k, v). (k, Some v)) (srt (non_nans s)) @ nans s"

text \<open>The order a descending sort puts cells in: larger numbers first, NaN last.\<close>

definition float_ge :: "float64 \<Rightarrow> float64 \<Rightarrow> bool" where
  "float_ge a b =
     (case b of None \<Rightarrow> True | Some y \<Rightarrow> (case a of None \<Rightarrow> False | Some x \<Rightarrow> y \<le> x))"

definition descending :: "('k \<times> float64) list \<Rightarrow> bool" where
  "descending s = sorted_wrt (\<lambda>a b. float_ge (snd a) (snd b)) s"

text \<open>
  Two sorts for concrete runs. The first is pandas' own scheme with a stable kind
  (reverse, sort ascending, reverse): ties keep their order. The second sorts the
  reversed rows: ties come out reversed.
\<close>

definition stable_desc :: sorter where
  "stable_desc xs = rev (sort_key snd (rev xs))"

definition ties_reversed_desc :: sorter where
  "ties_reversed_desc xs = sort_key (\<lambda>p. - snd p) (rev xs)"

text \<open>\<open>.head(n)\<close>: the first \<open>n\<close> rows, all of them when there are fewer.\<close>

definition head :: "nat \<Rightarrow> 'a list \<Rightarrow> 'a list" where
  "head n xs = take n xs"

text \<open>
  \<^verbatim>\<open>
  job_salary = (
      df_f.groupby("job_title")["salary_in_usd"]
      .median().sort_values(ascending=False).reset_index().head(10)
  )
  country_salary = (
      df_f.groupby("country_name")["salary_in_usd"]
      .median().sort_values(ascending=False).reset_index().head(20)
  )
  \<close>
\<close>

definition job_salary :: "sorter \<Rightarrow> erow list \<Rightarrow> (string \<times> float64) list" where
  "job_salary srt v = head 10 (sort_values_desc srt (group_median (salary_groups job_title v)))"

definition country_salary :: "sorter \<Rightarrow> erow list \<Rightarrow> (string \<times> float64) list" where
  "country_salary srt v =
     head 20 (sort_values_desc srt (group_median (salary_groups country_name v)))"

subsection \<open>The summary card\<close>

text \<open>\<open>frame.iloc[0]\<close>: the first row; IndexError on a frame with no row.\<close>

definition iloc0 :: "'a list \<Rightarrow> py_error + 'a" where
  "iloc0 xs = (case xs of [] \<Rightarrow> Inl IndexError | x # _ \<Rightarrow> Inr x)"

text \<open>
  \<^verbatim>\<open>
  top_job = job_salary.iloc[0]["job_title"]
  top_salary = job_salary.iloc[0]["salary_in_usd"]
  \<close>
\<close>

definition top_job :: "(string \<times> float64) list \<Rightarrow> py_error + string" where
  "top_job js = (case iloc0 js of Inl e \<Rightarrow> Inl e | Inr r \<Rightarrow> Inr (fst r))"

definition top_salary :: "(string \<times> float64) list \<Rightarrow> py_error + float64" where
  "top_salary js = (case iloc0 js of Inl e \<Rightarrow> Inl e | Inr r \<Rightarrow> Inr (snd r))"

text \<open>\<open>int(x)\<close> on a float: the fraction is dropped (towards zero); NaN raises ValueError.\<close>

definition py_int :: "float64 \<Rightarrow> py_error + int" where
  "py_int x =
     (case x of
        None \<Rightarrow> Inl ValueError
      | Some q \<Rightarrow> Inr (if q < 0 then - \<lfloor>- q\<rfloor> else \<lfloor>q\<rfloor>))"

text \<open>\<open>f"{n:,}"\<close> on an integer: its decimal digits in groups of three, a minus sign
  first when it is negative.\<close>

definition digit_char :: "nat \<Rightarrow> char" where
  "digit_char d = ''0123456789'' ! (d mod 10)"

fun digits :: "nat \<Rightarrow> string" where
  "digits n = (if n < 10 then [digit_char n] else digits (n div 10) @ [digit_char (n mod 10)])"

definition three_digits :: "nat \<Rightarrow> string" where
  "three_digits n = [digit_char (n div 100), digit_char (n div 10), digit_char n]"

fun grouped :: "nat \<Rightarrow> string" where
  "grouped n =
     (if n < 1000 then digits n else grouped (n div 1000) @ '','' @ three_digits (n mod 1000))"

definition format_thousands :: "int \<Rightarrow> string" where
  "format_thousands i = (if i < 0 then ''-'' @ grouped (nat (- i)) else grouped (nat i))"

text \<open>
  What thousands-separated decimal text is, stated on the text itself: cut at the
  commas, the pieces are decimal digits; read together they are the number, without a
  leading zero; the first piece has one to three digits and every later piece three.
\<close>

fun split_on :: "char \<Rightarrow> string \<Rightarrow> string list" where
  "split_on c [] = [[]]"
| "split_on c (x # xs) =
     (if x = c then [] # split_on c xs
      else (x # hd (split_on c xs)) # tl (split_on c xs))"

definition digit_value :: "char \<Rightarrow> nat" where
  "digit_value c = of_char c - 48"

definition decimal_value :: "string \<Rightarrow> nat" where
  "decimal_value s = foldl (\<lambda>a c. 10 * a + digit_value c) 0 s"

definition thousands_separated :: "nat \<Rightarrow> string \<Rightarrow> bool" where
  "thousands_separated n s \<longleftrightarrow>
     (let cs = split_on CHR '','' s; d = concat cs in
        (\<forall>c \<in> set d. c \<in> set ''0123456789'')
        \<and> decimal_value d = n
        \<and> (1 < length d \<longrightarrow> hd d \<noteq> CHR ''0'')
        \<and> 1 \<le> length (hd cs) \<and> length (hd cs) \<le> 3
        \<and> (\<forall>c \<in> set (tl cs). length c = 3))"


subsection \<open>The page\<close>

text \<open>\<open>exp_map\<close>, and \<open>Series.map(exp_map)\<close>: a code outside the dictionary maps to NaN.\<close>

definition exp_map :: "string \<Rightarrow> string option" where
  "exp_map = map_of
     [(''EN'', ''Entry-level''), (''MI'', ''Mid-level''),
      (''SE'', ''Senior-level''), (''EX'', ''Executive-level'')]"

text \<open>
  What the script puts on the page, in order. A chart is the data it is drawn from:
  for the line chart x, y and the legend label of each point; for the job chart title,
  median and bar colour; the card is its two interpolated texts. Titles and
  sub-headers are constant and left out.
\<close>

datatype element =
    LineChart "(int \<times> float64 \<times> string option) list"
  | JobChart "(string \<times> float64 \<times> string) list"
  | Card string string
  | CountryChart "(string \<times> float64) list"

definition fig1 :: "((int \<times> string) \<times> float64) list \<Rightarrow> element" where
  "fig1 t = LineChart (map (\<lambda>((y, l), m). (y, m, exp_map l)) t)"

text \<open>
  \<^verbatim>\<open>
  job_salary["color"] = job_salary["job_title"].apply(
      lambda x: "#2E86C1" if x == top_job else "#AED6F1")
  \<close>
\<close>

definition fig2 :: "string \<Rightarrow> (string \<times> float64) list \<Rightarrow> element" where
  "fig2 tj js = JobChart (map (\<lambda>(t, m). (t, m, if t = tj then ''#2E86C1'' else ''#AED6F1'')) js)"

definition salary_card :: "string \<Rightarrow> int \<Rightarrow> element" where
  "salary_card tj n = Card tj (''$'' @ format_thousands n)"

text \<open>
  The script from the enrichment to the last chart. It returns what was rendered and
  the exception that ended the run, if one did: Streamlit shows the elements rendered
  before an exception and then stops.
\<close>

definition dashboard ::
  "sorter \<Rightarrow> registry \<Rightarrow> row list \<Rightarrow> selection \<Rightarrow> element list \<times> py_error option" where
  "dashboard srt get table sel =
     (case enrich get table of
        Inl e \<Rightarrow> ([], Some e)
      | Inr df \<Rightarrow>
          let view = df_f df sel;
              out1 = [fig1 (trend df sel)];
              js = job_salary srt view
          in (case top_job js of
                Inl e \<Rightarrow> (out1, Some e)
              | Inr tj \<Rightarrow>
                  (case top_salary js of
                     Inl e \<Rightarrow> (out1, Some e)
                   | Inr ts \<Rightarrow>
                       let out2 = out1 @ [fig2 tj js]
                       in (case py_int ts of
                             Inl e \<Rightarrow> (out2, Some e)
                           | Inr n \<Rightarrow>
                               (out2 @ [salary_card tj n,
                                        CountryChart (country_salary srt view)], None)))))"

subsection \<open>A small table and a small registry\<close>

text \<open>
  The three rows of the specification's scenario, and a registry that knows two codes,
  finds nothing for the others and raises on the empty string.
\<close>

definition sample_table :: "row list" where
  "sample_table =
     [\<lparr>work_year = 2023, experience_level = ''SE'', employee_residence = ''US'',
        job_title = ''Data Scientist'', salary_in_usd = Some 150000\<rparr>,
      \<lparr>work_year = 2023, experience_level = ''SE'', employee_residence = ''US'',
        job_title = ''Data Scientist'', salary_in_usd = Some 170000\<rparr>,
      \<lparr>work_year = 2023, experience_level = ''EN'', employee_residence = ''DE'',
        job_title = ''Analyst'', salary_in_usd = Some 50000\<rparr>]"

definition sample_registry :: registry where
  "sample_registry code =
     (if code = ''US'' then Inr (Some \<lparr>alpha_2 = ''US'', name = ''United States''\<rparr>)
      else if code = ''DE'' then Inr (Some \<lparr>alpha_2 = ''DE'', name = ''Germany''\<rparr>)
      else if code = [] then Inl LookupError
      else Inr None)"

text \<open>The sample table after the enrichment.\<close>

definition sample_df :: "erow list" where
  "sample_df =
     [\<lparr>work_year = 2023, experience_level = ''SE'', employee_residence = ''US'',
        job_title = ''Data Scientist'', salary_in_usd = Some 150000,
        country_name = ''United States''\<rparr>,
      \<lparr>work_year = 2023, experience_level = ''SE'', employee_residence = ''US'',
        job_title = ''Data Scientist'', salary_in_usd = Some 170000,
        country_name = ''United States''\<rparr>,
      \<lparr>work_year = 2023, experience_level = ''EN'', employee_residence = ''DE'',
        job_title = ''Analyst'', salary_in_usd = Some 50000, country_name = ''Germany''\<rparr>]"

text \<open>Two rows with the same salary; the later row has the smaller title and country.\<close>

definition tie_df :: "erow list" where
  "tie_df =
     [\<lparr>work_year = 2023, experience_level = ''SE'', employee_residence = ''US'',
        job_title = ''Zed'', salary_in_usd = Some 100000, country_name = ''United States''\<rparr>,
      \<lparr>work_year = 2023, experience_level = ''SE'', employee_residence = ''DE'',
        job_title = ''Abe'', salary_in_usd = Some 100000, country_name = ''Germany''\<rparr>]"



definition all_selected :: selection where
  "all_selected =
     \<lparr>selected_year = 2023, selected_country = [''Germany'', ''United States''],
      selected_exp = [''EN'', ''SE'']\<rparr>"

text \<open>Eleven job titles, one row each, for a run in which \<open>head(10)\<close> drops a group.\<close>

definition titled :: "string \<Rightarrow> int \<Rightarrow> erow" where
  "titled t s =
     \<lparr>work_year = 2023, experience_level = ''SE'', employee_residence = ''US'',
      job_title = t, salary_in_usd = Some s, country_name = ''United States''\<rparr>"

definition eleven_df :: "erow list" where
  "eleven_df =
     [titled ''A'' 1000, titled ''B'' 2000, titled ''C'' 3000, titled ''D'' 4000,
      titled ''E'' 5000, titled ''F'' 6000, titled ''G'' 7000, titled ''H'' 8000,
      titled ''I'' 9000, titled ''J'' 10000, titled ''K'' 11000]"

text \<open>
  A salary that float64 does not hold, \<open>2 ^ 53 + 1\<close>, and a row whose salary cell is
  empty, before and after the enrichment.
\<close>

definition huge_df :: "erow list" where
  "huge_df =
     [\<lparr>work_year = 2023, experience_level = ''SE'', employee_residence = ''US'',
        job_title = ''Data Scientist'', salary_in_usd = Some 9007199254740993,
        country_name = ''United States''\<rparr>]"


definition missing_df :: "erow list" where
  "missing_df =
     [\<lparr>work_year = 2023, experience_level = ''EN'', employee_residence = ''DE'',
        job_title = ''Analyst'', salary_in_usd = None, country_name = ''Germany''\<rparr>]"

section \<open>Properties\<close>

subsection \<open>Enrichment\<close>

lemma code_to_country_cases:
  "code_to_country get code =
     (case get code of Inr (Some c) \<Rightarrow> Inr (name c) | _ \<Rightarrow> Inr code)"
  by (simp add: code_to_country_def getattr_name_def split: sum.splits option.splits)

lemma apply_series_total:
  assumes "\<And>x. \<exists>y. f x = Inr y"
  shows "\<exists>ys. apply_series f xs = Inr ys \<and> length ys = length xs
           \<and> (\<forall>i<length xs. f (xs ! i) = Inr (ys ! i))"
proof (induction xs)
  case Nil
  show ?case by simp
next
  case (Cons x xs)
  from assms obtain y where y: "f x = Inr y" by blast
  from Cons obtain ys where ys: "apply_series f xs = Inr ys" "length ys = length xs"
    "\<forall>i<length xs. f (xs ! i) = Inr (ys ! i)" by blast
  have "\<forall>i<length (x # xs). f ((x # xs) ! i) = Inr ((y # ys) ! i)"
    using y ys(3) by (auto simp: nth_Cons split: nat.splits)
  then show ?case using y ys(1,2) by simp
qed

lemma code_to_country_returns: "\<exists>n. code_to_country get code = Inr n"
  by (simp add: code_to_country_cases split: sum.splits option.splits)

lemma enrich_column:
  "\<exists>col. apply_series (code_to_country get) (map employee_residence df) = Inr col
     \<and> length col = length df
     \<and> (\<forall>i<length df. code_to_country get (employee_residence (df ! i)) = Inr (col ! i))"
proof -
  have "\<And>x. \<exists>y. code_to_country get x = Inr y"
    by (rule code_to_country_returns)
  from apply_series_total[OF this, where xs = "map employee_residence df"]
  show ?thesis by auto
qed

lemma truncate_add_country_name:
  "length col = length df \<Longrightarrow> map row.truncate (add_country_name df col) = df"
  by (induction df col rule: list_induct2')
     (auto simp: add_country_name_def row.defs erow.defs)

lemma country_name_add_country_name:
  "length col = length df \<Longrightarrow> map country_name (add_country_name df col) = col"
  by (induction df col rule: list_induct2')
     (auto simp: add_country_name_def row.defs erow.defs)

lemma map_truncate_field:
  assumes "map row.truncate edf = df" "\<And>r. f' r = f (row.truncate r)"
  shows "map f' edf = map f df"
proof -
  have "map f' edf = map f (map row.truncate edf)" by (simp add: assms(2))
  then show ?thesis by (simp only: assms(1))
qed

lemma enrich_result:
  "\<exists>edf. enrich get df = Inr edf \<and> length edf = length df
     \<and> map row.truncate edf = df
     \<and> (\<forall>i<length df.
           code_to_country get (employee_residence (df ! i)) = Inr (country_name (edf ! i)))"
proof -
  from enrich_column[of get df] obtain col where
    col: "apply_series (code_to_country get) (map employee_residence df) = Inr col"
      "length col = length df"
      "\<forall>i<length df. code_to_country get (employee_residence (df ! i)) = Inr (col ! i)"
    by blast
  let ?edf = "add_country_name df col"
  have 1: "enrich get df = Inr ?edf" by (simp add: enrich_def col(1))
  have 2: "map row.truncate ?edf = df" by (rule truncate_add_country_name[OF col(2)])
  have 3: "map country_name ?edf = col" by (rule country_name_add_country_name[OF col(2)])
  have 4: "length ?edf = length df" using 2 by (metis length_map)
  have "\<forall>i<length df.
          code_to_country get (employee_residence (df ! i)) = Inr (country_name (?edf ! i))"
  proof (intro allI impI)
    fix i assume i: "i < length df"
    then have "country_name (?edf ! i) = col ! i" using 3 4 by (metis nth_map)
    with col(3) i show
      "code_to_country get (employee_residence (df ! i)) = Inr (country_name (?edf ! i))"
      by simp
  qed
  with 1 2 4 show ?thesis by blast
qed

lemma code_to_country_idem:
  assumes "iso_registry get" "code_to_country get code = Inr n"
  shows "code_to_country get n = Inr n"
proof (cases "get code")
  case (Inl e)
  with assms(2) have "n = code" by (simp add: code_to_country_cases)
  then show ?thesis using assms(2) by simp
next
  case (Inr obj)
  show ?thesis
  proof (cases obj)
    case None
    with Inr assms(2) have "n = code" by (simp add: code_to_country_cases)
    then show ?thesis using assms(2) by simp
  next
    case (Some c)
    with Inr assms(2) have n: "n = name c" by (simp add: code_to_country_cases)
    from assms(1) Inr Some have "length (name c) \<noteq> 2" by (simp add: iso_registry_def)
    with assms(1) have "\<And>d. get (name c) \<noteq> Inr (Some d)" by (auto simp: iso_registry_def)
    then show ?thesis unfolding n
      by (simp add: code_to_country_cases split: sum.splits option.splits)
  qed
qed

lemma iso_sample_registry: "iso_registry sample_registry"
  by (auto simp: iso_registry_def sample_registry_def split: if_splits)

text \<open>
  Claim C2. \<open>code_to_country\<close> returns for every input and never raises: where the
  registry finds an entry for the code, the result is the entry's display name; for
  every other input (the registry finds nothing, or the lookup raises) the result is
  the input itself.
\<close>

theorem code_to_country_total:
  "(\<exists>n. code_to_country get code = Inr n)
   \<and> (\<forall>c. get code = Inr (Some c) \<longrightarrow> code_to_country get code = Inr (name c))
   \<and> ((\<forall>c. get code \<noteq> Inr (Some c)) \<longrightarrow> code_to_country get code = Inr code)"
  by (auto simp: code_to_country_cases split: sum.splits option.splits)

theorem code_to_country_total_witness:
  "sample_registry ''US'' = Inr (Some \<lparr>alpha_2 = ''US'', name = ''United States''\<rparr>)
   \<and> code_to_country sample_registry ''US'' = Inr ''United States''
   \<and> (\<forall>c. sample_registry ''ZZ'' \<noteq> Inr (Some c))
   \<and> code_to_country sample_registry ''ZZ'' = Inr ''ZZ''
   \<and> sample_registry [] = Inl LookupError
   \<and> code_to_country sample_registry [] = Inr []"
  using code_to_country_total[of sample_registry "''US''"]
        code_to_country_total[of sample_registry "''ZZ''"]
        code_to_country_total[of sample_registry "[]"]
  by (simp add: sample_registry_def)

text \<open>
  Claim C9. The enrichment returns a table with the rows of the input in their order,
  each with its five source fields as they were and the new field \<open>country_name\<close>
  holding \<open>code_to_country\<close> of the row's \<open>employee_residence\<close>. On the ISO registry
  (two-character codes, longer names) the mapping is idempotent: applied to one of its
  own results it returns that result.
\<close>

theorem enrich_adds_one_column:
  "(\<exists>edf. enrich get df = Inr edf
      \<and> map row.truncate edf = df
      \<and> map work_year edf = map work_year df
      \<and> map experience_level edf = map experience_level df
      \<and> map employee_residence edf = map employee_residence df
      \<and> map job_title edf = map job_title df
      \<and> map salary_in_usd edf = map salary_in_usd df
      \<and> (\<forall>i<length df.
            code_to_country get (employee_residence (df ! i)) = Inr (country_name (edf ! i))))
   \<and> (iso_registry get \<longrightarrow>
        (\<forall>code n. code_to_country get code = Inr n \<longrightarrow> code_to_country get n = Inr n))"
proof -
  from enrich_result[of get df] obtain edf where
    e: "enrich get df = Inr edf" "map row.truncate edf = df"
       "\<forall>i<length df.
          code_to_country get (employee_residence (df ! i)) = Inr (country_name (edf ! i))"
    by blast
  have "map work_year edf = map work_year df"
       "map experience_level edf = map experience_level df"
       "map employee_residence edf = map employee_residence df"
       "map job_title edf = map job_title df"
       "map salary_in_usd edf = map salary_in_usd df"
    by (rule map_truncate_field[OF e(2)], simp add: row.defs)+
  with e code_to_country_idem show ?thesis by blast
qed

theorem enrich_adds_one_column_witness:
  "iso_registry sample_registry
   \<and> map country_name (projr (enrich sample_registry sample_table))
       = [''United States'', ''United States'', ''Germany'']
   \<and> map row.truncate (projr (enrich sample_registry sample_table)) = sample_table
   \<and> code_to_country sample_registry ''DE'' = Inr ''Germany''
   \<and> code_to_country sample_registry ''Germany'' = Inr ''Germany''"
  using enrich_adds_one_column[of sample_registry sample_table] iso_sample_registry
  by (simp add: enrich_def add_country_name_def sample_table_def sample_registry_def
        code_to_country_cases row.defs erow.defs)

subsection \<open>The filtered table\<close>

lemma select_rows_map: "select_rows df (map P df) = filter P df"
  by (induction df) (auto simp: select_rows_def)

lemma mask_and_map: "mask_and (map P df) (map Q df) = map (\<lambda>r. P r \<and> Q r) df"
  by (simp add: mask_and_def zip_map_map zip_same_conv_map)

lemma isin_map: "isin (map f df) vs = map (\<lambda>r. f r \<in> set vs) df"
  by (simp add: isin_def)

lemma eq_mask_map: "eq_mask (map f df) v = map (\<lambda>r. f r = v) df"
  by (simp add: eq_mask_def)

lemma df_f_filter:
  "df_f df sel =
     filter (\<lambda>r. work_year r = selected_year sel
                \<and> country_name r \<in> set (selected_country sel)
                \<and> experience_level r \<in> set (selected_exp sel)) df"
  by (simp add: df_f_def isin_map eq_mask_map mask_and_map select_rows_map)

text \<open>
  Claim C3. The filtered table holds exactly the rows of the table, in table order,
  whose \<open>work_year\<close> is the selected year, whose \<open>country_name\<close> is one of the selected
  countries and whose \<open>experience_level\<close> is one of the selected levels.
\<close>

theorem df_f_conjunction:
  "df_f df sel =
     filter (\<lambda>r. work_year r = selected_year sel
                \<and> country_name r \<in> set (selected_country sel)
                \<and> experience_level r \<in> set (selected_exp sel)) df
   \<and> set (df_f df sel) =
       {r \<in> set df. work_year r = selected_year sel
                \<and> country_name r \<in> set (selected_country sel)
                \<and> experience_level r \<in> set (selected_exp sel)}"
  by (simp add: df_f_filter)

text \<open>
  Claim C8. With the country multi-select at its default, every country name of the
  table, the country condition filters nothing: the filtered table is the one the year
  and the levels select, and with the levels at their default too it is the table
  filtered by the year alone.
\<close>

theorem full_country_set_identity:
  "df_f df \<lparr>selected_year = y, selected_country = countries df, selected_exp = es\<rparr>
     = filter (\<lambda>r. work_year r = y \<and> experience_level r \<in> set es) df
   \<and> df_f df \<lparr>selected_year = y, selected_country = countries df,
               selected_exp = experience_levels df\<rparr>
     = filter_year_only df y"
  by (auto simp: df_f_filter countries_def experience_levels_def filter_year_only_def
        intro!: filter_cong)

subsection \<open>The median\<close>

lemma length_filter_mono:
  "(\<And>x. x \<in> set xs \<Longrightarrow> P x \<Longrightarrow> Q x) \<Longrightarrow> length (filter P xs) \<le> length (filter Q xs)"
  by (induction xs) auto

lemma length_filter_sort: "length (filter P (sort xs)) = length (filter P xs)"
proof -
  have "mset (filter P (sort xs)) = mset (filter P xs)" by simp
  then show ?thesis by (metis size_mset)
qed

lemma sorted_rank_below:
  fixes s :: "int list"
  assumes "sorted s" "k < length s"
  shows "length (filter (\<lambda>x. x < s ! k) s) \<le> k"
proof -
  have s: "s = take k s @ drop k s" by simp
  have "\<forall>x \<in> set (drop k s). s ! k \<le> x"
  proof
    fix x assume "x \<in> set (drop k s)"
    then obtain j where j: "j < length (drop k s)" "x = drop k s ! j"
      by (auto simp: in_set_conv_nth)
    then have "x = s ! (k + j)" using assms(2) by simp
    moreover have "k + j < length s" using j(1) by simp
    ultimately show "s ! k \<le> x" using assms(1) by (simp add: sorted_nth_mono)
  qed
  then have "filter (\<lambda>x. x < s ! k) (drop k s) = []" by (auto simp: filter_empty_conv)
  then have "filter (\<lambda>x. x < s ! k) s = filter (\<lambda>x. x < s ! k) (take k s)"
    by (metis s filter_append append_Nil2)
  then have "length (filter (\<lambda>x. x < s ! k) s) \<le> length (take k s)"
    by (metis length_filter_le)
  then show ?thesis by simp
qed

lemma sorted_rank_above:
  fixes s :: "int list"
  assumes "sorted s" "k < length s"
  shows "k < length (filter (\<lambda>x. x \<le> s ! k) s)"
proof -
  have s: "s = take (Suc k) s @ drop (Suc k) s" by simp
  have "\<forall>x \<in> set (take (Suc k) s). x \<le> s ! k"
  proof
    fix x assume "x \<in> set (take (Suc k) s)"
    then obtain j where j: "j < length (take (Suc k) s)" "x = take (Suc k) s ! j"
      by (auto simp: in_set_conv_nth)
    then have "j \<le> k" "x = s ! j" by simp_all
    then show "x \<le> s ! k" using assms by (simp add: sorted_nth_mono)
  qed
  then have "filter (\<lambda>x. x \<le> s ! k) (take (Suc k) s) = take (Suc k) s" by simp
  then have "length (take (Suc k) s) \<le> length (filter (\<lambda>x. x \<le> s ! k) s)"
    by (metis s filter_append length_append le_add1)
  then show ?thesis using assms(2) by simp
qed

lemma has_rank_sort:
  assumes "k < length xs"
  shows "has_rank xs k (sort xs ! k)"
proof -
  have "sorted (sort xs)" "k < length (sort xs)" using assms by simp_all
  from sorted_rank_below[OF this] sorted_rank_above[OF this]
  show ?thesis by (simp add: has_rank_def length_filter_sort)
qed

lemma has_rank_unique:
  assumes "has_rank xs k v" "has_rank xs k w"
  shows "v = w"
proof -
  have less: "\<not> a < b" if "has_rank xs k a" "has_rank xs k b" for a b
  proof
    assume "a < b"
    then have "length (filter (\<lambda>x. x \<le> a) xs) \<le> length (filter (\<lambda>x. x < b) xs)"
      by (intro length_filter_mono) simp
    with that show False by (simp add: has_rank_def)
  qed
  from less[OF assms] less[OF assms(2,1)] show ?thesis by simp
qed

lemma has_rank_in_set: "has_rank xs k v \<Longrightarrow> v \<in> set xs"
proof (rule ccontr)
  assume h: "has_rank xs k v" and "v \<notin> set xs"
  then have "filter (\<lambda>x. x \<le> v) xs = filter (\<lambda>x. x < v) xs"
    by (intro filter_cong) (auto simp: less_le)
  with h show False by (auto simp: has_rank_def)
qed

lemma sort_eq_Nil: "sort xs = [] \<longleftrightarrow> xs = []"
  by (metis length_sort length_0_conv)

lemma ulp_exp_small: "a < 9007199254740992 \<Longrightarrow> ulp_exp a = 0"
  by (subst ulp_exp.simps) simp

lemma ulp_exp_step: "\<not> a < 9007199254740992 \<Longrightarrow> ulp_exp a = Suc (ulp_exp (a div 2))"
  by (subst ulp_exp.simps) simp

lemma round53_small: "\<bar>x\<bar> < 9007199254740992 \<Longrightarrow> round53 x = x"
proof -
  assume "\<bar>x\<bar> < 9007199254740992"
  then have "ulp_exp (nat \<bar>x\<bar>) = 0" by (intro ulp_exp_small) simp
  then have "round53 x = sgn x * \<bar>x\<bar>" by (simp add: round53_def del: ulp_exp.simps)
  then show ?thesis by (simp add: mult_sgn_abs)
qed

lemma round53_exact: "\<bar>x\<bar> \<le> 2 ^ 53 \<Longrightarrow> round53 x = x"
proof (cases "\<bar>x\<bar> < 9007199254740992")
  case True
  then show ?thesis by (rule round53_small)
next
  case False
  assume "\<bar>x\<bar> \<le> 2 ^ 53"
  with False have ax: "\<bar>x\<bar> = 9007199254740992" by simp
  then have a: "nat \<bar>x\<bar> = 9007199254740992" by simp
  have "ulp_exp 9007199254740992 = Suc (ulp_exp (9007199254740992 div 2))"
    by (rule ulp_exp_step) simp
  also have "\<dots> = Suc 0" by (simp add: ulp_exp_small del: ulp_exp.simps)
  finally have "round53 x = sgn x * 9007199254740992"
    by (simp add: round53_def a del: ulp_exp.simps)
  also have "\<dots> = sgn x * \<bar>x\<bar>" by (simp only: ax)
  finally show ?thesis by (simp add: mult_sgn_abs)
qed

lemmas median_eval = median_def present_def round53_small

lemma median_within:
  assumes "present cells \<noteq> []" and "\<forall>x \<in> set (present cells). \<bar>x\<bar> \<le> 2 ^ 52"
  shows "\<exists>m. median cells = Some m \<and> statistical_median (present cells) m"
proof -
  let ?xs = "present cells"
  let ?n = "length ?xs"
  let ?s = "sort ?xs"
  have n: "0 < ?n" using assms(1) by simp
  have b: "\<bar>x\<bar> \<le> 2 ^ 52" if "x \<in> set ?xs" for x using that assms(2) by blast
  have "map round53 ?xs = map (\<lambda>x. x) ?xs"
  proof (rule map_cong[OF refl])
    fix x assume "x \<in> set ?xs"
    from b[OF this] have "\<bar>x\<bar> \<le> 2 ^ 53" by simp
    then show "round53 x = x" by (rule round53_exact)
  qed
  then have s: "sort (map round53 ?xs) = ?s" by simp
  show ?thesis
  proof (cases "odd ?n")
    case True
    have k: "?n div 2 < ?n" using n by simp
    have "median cells = Some (of_int (?s ! (?n div 2)))"
      using True n by (simp add: median_def s Let_def sort_eq_Nil)
    moreover have "statistical_median ?xs (of_int (?s ! (?n div 2)))"
      using True has_rank_sort[OF k] has_rank_in_set[OF has_rank_sort[OF k]]
      by (auto simp: statistical_median_def Let_def)
    ultimately show ?thesis by blast
  next
    case False
    have k: "?n div 2 < ?n" "?n div 2 - 1 < ?n" using n by arith+
    let ?a = "?s ! (?n div 2 - 1)" and ?b = "?s ! (?n div 2)"
    have r: "has_rank ?xs (?n div 2 - 1) ?a" "has_rank ?xs (?n div 2) ?b"
      by (rule has_rank_sort[OF k(2)], rule has_rank_sort[OF k(1)])
    have "\<bar>?a\<bar> \<le> 2 ^ 52" "\<bar>?b\<bar> \<le> 2 ^ 52"
      by (rule b[OF has_rank_in_set[OF r(1)]], rule b[OF has_rank_in_set[OF r(2)]])
    then have "\<bar>?a + ?b\<bar> \<le> 2 ^ 53"
      using abs_triangle_ineq[of ?a ?b] by simp
    then have e: "round53 (?a + ?b) = ?a + ?b" by (rule round53_exact)
    have "median cells = Some (of_int (round53 (?a + ?b)) / 2)"
      using False n by (simp add: median_def s Let_def sort_eq_Nil)
    then have "median cells = Some ((of_int ?a + of_int ?b) / 2)"
      by (simp only: e of_int_add)
    moreover have "statistical_median ?xs ((of_int ?a + of_int ?b) / 2)"
      using False r has_rank_in_set[OF r(1)] has_rank_in_set[OF r(2)]
      by (auto simp: statistical_median_def Let_def)
    ultimately show ?thesis by blast
  qed
qed

lemma median_none_present: "present cells = [] \<Longrightarrow> median cells = None"
  by (simp add: median_def)

lemma statistical_median_unique:
  assumes "statistical_median xs m" "statistical_median xs m'"
  shows "m = m'"
proof (cases "odd (length xs)")
  case True
  with assms obtain v w where "has_rank xs (length xs div 2) v" "m = of_int v"
    "has_rank xs (length xs div 2) w" "m' = of_int w"
    by (auto simp: statistical_median_def Let_def)
  then show ?thesis using has_rank_unique by blast
next
  case False
  with assms obtain a b a' b' where
    "has_rank xs (length xs div 2 - 1) a" "has_rank xs (length xs div 2) b"
    "m = (of_int a + of_int b) / 2"
    "has_rank xs (length xs div 2 - 1) a'" "has_rank xs (length xs div 2) b'"
    "m' = (of_int a' + of_int b') / 2"
    by (auto simp: statistical_median_def Let_def)
  then show ?thesis using has_rank_unique by blast
qed

subsection \<open>Group by\<close>

lemma agg_eq:
  "group_median (salary_groups key df) =
     map (\<lambda>k. (k, median (map salary_in_usd (filter (\<lambda>r. key r = k) df))))
       (sort (remdups (map key df)))"
  by (simp add: group_median_def salary_groups_def groupby_def comp_def)

lemma agg_keys: "map fst (group_median (salary_groups key df)) = sort (remdups (map key df))"
  by (simp add: agg_eq comp_def)

lemma agg_keys_sorted: "sorted (map fst (group_median (salary_groups key df)))"
  by (simp add: agg_keys)

lemma agg_keys_distinct: "distinct (map fst (group_median (salary_groups key df)))"
  by (simp add: agg_keys)

lemma agg_keys_set: "fst ` set (group_median (salary_groups key df)) = key ` set df"
proof -
  have "set (map fst (group_median (salary_groups key df))) = key ` set df"
    by (simp only: agg_keys set_sort set_remdups set_map)
  then show ?thesis by simp
qed

lemma agg_length: "length (group_median (salary_groups key df)) = card (key ` set df)"
proof -
  have "length (map fst (group_median (salary_groups key df))) = card (key ` set df)"
    by (simp only: agg_keys length_sort length_remdups_card_conv set_map)
  then show ?thesis by simp
qed

lemma agg_member:
  assumes "(k, c) \<in> set (group_median (salary_groups key df))"
  shows "k \<in> key ` set df"
    and "c = median (map salary_in_usd (filter (\<lambda>r. key r = k) df))"
    and "map salary_in_usd (filter (\<lambda>r. key r = k) df) \<noteq> []"
proof -
  from assms show k: "k \<in> key ` set df" and
    "c = median (map salary_in_usd (filter (\<lambda>r. key r = k) df))"
    by (auto simp: agg_eq)
  then obtain r where "r \<in> set df" "key r = k" by blast
  then have "r \<in> set (filter (\<lambda>r. key r = k) df)" by simp
  then show "map salary_in_usd (filter (\<lambda>r. key r = k) df) \<noteq> []"
    by (metis empty_iff list.set(1) map_is_Nil_conv)
qed

lemma agg_number:
  assumes "(k, c) \<in> set (group_median (salary_groups key df))"
    and "present (map salary_in_usd (filter (\<lambda>r. key r = k) df)) \<noteq> []"
    and "\<forall>x \<in> set (present (map salary_in_usd (filter (\<lambda>r. key r = k) df))). \<bar>x\<bar> \<le> 2 ^ 52"
  shows "\<exists>m. c = Some m
            \<and> statistical_median
                 (present (map salary_in_usd (filter (\<lambda>r. key r = k) df))) m"
  using agg_member(2)[OF assms(1)] median_within[OF assms(2,3)] by simp

subsection \<open>Sorting the groups\<close>

lemma mset_non_nans_nans:
  "image_mset (\<lambda>(k, v). (k, Some v)) (mset (non_nans s)) + mset (nans s) = mset s"
  by (induction s) (auto simp: non_nans_def nans_def split: option.splits)

lemma mset_sort_values_desc:
  assumes "sorter_ok srt"
  shows "mset (sort_values_desc srt s) = mset s"
proof -
  from assms have "mset (srt (non_nans s)) = mset (non_nans s)" by (simp add: sorter_ok_def)
  then have "mset (map (\<lambda>(k, v). (k, Some v)) (srt (non_nans s)))
               = image_mset (\<lambda>(k, v). (k, Some v)) (mset (non_nans s))"
    by (metis mset_map)
  then show ?thesis by (simp add: sort_values_desc_def mset_non_nans_nans)
qed

lemma set_sort_values_desc: "sorter_ok srt \<Longrightarrow> set (sort_values_desc srt s) = set s"
  by (metis mset_sort_values_desc set_mset_mset)

lemma length_sort_values_desc: "sorter_ok srt \<Longrightarrow> length (sort_values_desc srt s) = length s"
  by (metis mset_sort_values_desc size_mset)

lemma keys_sort_values_desc:
  "sorter_ok srt \<Longrightarrow> mset (map fst (sort_values_desc srt s)) = mset (map fst s)"
  by (metis mset_sort_values_desc mset_map)

lemma distinct_sort_values_desc:
  "sorter_ok srt \<Longrightarrow> distinct (map fst s) \<Longrightarrow> distinct (map fst (sort_values_desc srt s))"
  by (metis keys_sort_values_desc mset_eq_imp_distinct_iff)

lemma descending_sort_values_desc:
  assumes "sorter_ok srt"
  shows "descending (sort_values_desc srt s)"
proof -
  from assms have "sorted_wrt (\<lambda>a b. snd b \<le> snd a) (srt (non_nans s))"
    by (simp add: sorter_ok_def)
  then have 1: "sorted_wrt (\<lambda>a b. float_ge (snd a) (snd b))
                  (map (\<lambda>(k, v). (k, Some v)) (srt (non_nans s)))"
    by (simp add: sorted_wrt_map float_ge_def case_prod_beta)
  have 2: "sorted_wrt (\<lambda>a b. float_ge (snd a) (snd b)) (nans s)"
    by (rule sorted_wrt_mono_rel[of _ "\<lambda>a b. True"])
       (auto simp: nans_def float_ge_def)
  have 3: "\<forall>x \<in> set (map (\<lambda>(k, v). (k, Some v)) (srt (non_nans s))).
             \<forall>y \<in> set (nans s). float_ge (snd x) (snd y)"
    by (auto simp: nans_def float_ge_def)
  from 1 2 3 show ?thesis
    unfolding descending_def sort_values_desc_def sorted_wrt_append by blast
qed

lemma filter_non_nans:
  "map (\<lambda>(k, v). (k, Some v)) (filter (\<lambda>p. snd p = m) (non_nans s))
     = filter (\<lambda>p. snd p = Some m) s"
  by (induction s) (auto simp: non_nans_def split: option.splits)

lemma filter_map_Some:
  "filter (\<lambda>p. snd p = Some m) (map (\<lambda>(k, v). (k, Some v)) xs)
     = map (\<lambda>(k, v). (k, Some v)) (filter (\<lambda>p. snd p = m) xs)"
  by (induction xs) auto

lemma filter_map_None:
  "filter (\<lambda>p. snd p = None) (map (\<lambda>(k, v). (k, Some v)) xs) = []"
  by (induction xs) auto

lemma ties_sort_values_desc:
  assumes "sorter_stable srt"
  shows "filter (\<lambda>p. snd p = c) (sort_values_desc srt s) = filter (\<lambda>p. snd p = c) s"
proof (cases c)
  case None
  have "nans s = filter (\<lambda>p. snd p = None) s"
    by (simp add: nans_def)
  then have "filter (\<lambda>p. snd p = None) (nans s) = filter (\<lambda>p. snd p = None) s"
    by simp
  then show ?thesis by (simp add: None sort_values_desc_def filter_map_None)
next
  case (Some m)
  have "filter (\<lambda>p. snd p = Some m) (nans s) = []"
    by (auto simp: nans_def filter_empty_conv)
  moreover from assms have "filter (\<lambda>p. snd p = m) (srt (non_nans s))
      = filter (\<lambda>p. snd p = m) (non_nans s)"
    by (simp add: sorter_stable_def)
  ultimately show ?thesis
    by (simp add: Some sort_values_desc_def filter_map_Some filter_non_nans)
qed

lemma filter_take_prefix: "\<exists>j. filter P (take n xs) = take j (filter P xs)"
proof -
  have "filter P xs = filter P (take n xs) @ filter P (drop n xs)"
    by (metis append_take_drop_id filter_append)
  then have "take (length (filter P (take n xs))) (filter P xs) = filter P (take n xs)"
    by simp
  then show ?thesis by metis
qed

lemma stable_desc_ok: "sorter_ok stable_desc"
proof -
  have "sorted_wrt (\<lambda>a b. snd b \<le> snd a) (rev (sort_key snd (rev xs)))" for xs :: "(string \<times> rat) list"
  proof -
    have "sorted (map snd (sort_key snd (rev xs)))" by simp
    then have "sorted_wrt (\<lambda>a b. snd a \<le> snd b) (sort_key snd (rev xs))"
      by (simp add: sorted_map)
    then show ?thesis by (simp add: sorted_wrt_rev)
  qed
  then show ?thesis by (simp add: sorter_ok_def stable_desc_def)
qed

lemma stable_desc_stable: "sorter_stable stable_desc"
proof -
  have "filter (\<lambda>p. snd p = v) (rev (sort_key snd (rev xs))) = filter (\<lambda>p. snd p = v) xs"
    for v and xs :: "(string \<times> rat) list"
  proof -
    have "filter (\<lambda>p. snd p = v) (sort_key snd (rev xs)) = filter (\<lambda>p. snd p = v) (rev xs)"
      by (rule sort_key_stable)
    then show ?thesis by (simp add: rev_filter[symmetric] del: rev_filter)
  qed
  then show ?thesis by (simp add: sorter_stable_def stable_desc_def)
qed

lemma ties_reversed_desc_ok: "sorter_ok ties_reversed_desc"
proof -
  have "sorted_wrt (\<lambda>a b. snd b \<le> snd a) (sort_key (\<lambda>p. - snd p) (rev xs))"
    for xs :: "(string \<times> rat) list"
  proof -
    have "sorted (map (\<lambda>p. - snd p) (sort_key (\<lambda>p. - snd p) (rev xs)))" by simp
    then show ?thesis by (simp add: sorted_map)
  qed
  then show ?thesis by (simp add: sorter_ok_def ties_reversed_desc_def)
qed

subsection \<open>Runs on the sample table\<close>

lemma enrich_sample: "enrich sample_registry sample_table = Inr sample_df"
  by (simp add: enrich_def add_country_name_def sample_table_def sample_registry_def
        code_to_country_cases row.defs erow.defs sample_df_def)

lemma view_all: "df_f sample_df all_selected = sample_df"
  by (simp add: df_f_filter sample_df_def all_selected_def)

lemma view_none: "df_f sample_df (all_selected\<lparr>selected_country := []\<rparr>) = []"
  by (simp add: df_f_filter sample_df_def all_selected_def)

lemma agg_job:
  "group_median (salary_groups job_title sample_df)
     = [(''Analyst'', Some 50000), (''Data Scientist'', Some 160000)]"
  by (simp add: agg_eq sample_df_def median_eval)

lemma agg_country:
  "group_median (salary_groups country_name sample_df)
     = [(''Germany'', Some 50000), (''United States'', Some 160000)]"
  by (simp add: agg_eq sample_df_def median_eval)

lemma trend_filter:
  "trend df sel =
     group_median
       (salary_groups (\<lambda>r. (work_year r, experience_level r))
          (filter (\<lambda>r. experience_level r \<in> set (selected_exp sel)) df))"
  by (simp add: trend_def isin_map select_rows_map)

lemma trend_sample:
  "trend sample_df (all_selected\<lparr>selected_country := cs\<rparr>)
     = [((2023, ''EN''), Some 50000), ((2023, ''SE''), Some 160000)]"
  by (simp add: trend_filter agg_eq sample_df_def median_eval all_selected_def)

lemma job_sample: "job_salary stable_desc sample_df
     = [(''Data Scientist'', Some 160000), (''Analyst'', Some 50000)]"
  by (simp add: job_salary_def head_def agg_job sort_values_desc_def non_nans_def
        nans_def stable_desc_def)

lemma country_sample: "country_salary stable_desc sample_df
     = [(''United States'', Some 160000), (''Germany'', Some 50000)]"
  by (simp add: country_salary_def head_def agg_country sort_values_desc_def non_nans_def
        nans_def stable_desc_def)

subsection \<open>An empty filtered table\<close>

lemma job_salary_empty: "sorter_ok srt \<Longrightarrow> job_salary srt [] = []"
proof -
  assume "sorter_ok srt"
  then have "length (sort_values_desc srt []) = 0"
    by (simp only: length_sort_values_desc list.size)
  then show ?thesis by (simp add: job_salary_def head_def agg_eq)
qed

lemma dashboard_empty_view:
  assumes "sorter_ok srt" "enrich get table = Inr df" "df_f df sel = []"
  shows "dashboard srt get table sel = ([fig1 (trend df sel)], Some IndexError)"
  by (simp add: dashboard_def assms(2,3) job_salary_empty[OF assms(1)] top_job_def iloc0_def)

text \<open>
  Claim C1. The claim is that no selection matching zero rows makes the program fail.
  The run below is the sample table with the country multi-select emptied: the filtered
  table is empty, so is the top-job aggregate, and \<open>job_salary.iloc[0]\<close> raises
  IndexError. The line chart is on the page; the bar chart, the card and the country
  chart are not. By \<open>dashboard_empty_view\<close> the same happens for every table and every
  selection whose filtered table is empty.
\<close>

theorem empty_selection_raises_IndexError:
  "dashboard stable_desc sample_registry sample_table (all_selected\<lparr>selected_country := []\<rparr>)
   = ([LineChart [(2023, Some 50000, Some ''Entry-level''),
                  (2023, Some 160000, Some ''Senior-level'')]], Some IndexError)"
  by (simp add: dashboard_empty_view[OF stable_desc_ok enrich_sample view_none]
        trend_sample[of "[]"] fig1_def exp_map_def)

subsection \<open>The reported medians\<close>

lemma set_head: "set (head n xs) \<subseteq> set xs"
  by (simp add: head_def set_take_subset)

lemma job_salary_subset:
  "sorter_ok srt \<Longrightarrow> set (job_salary srt v) \<subseteq> set (group_median (salary_groups job_title v))"
  unfolding job_salary_def using set_head set_sort_values_desc by metis

lemma country_salary_subset:
  "sorter_ok srt \<Longrightarrow>
     set (country_salary srt v) \<subseteq> set (group_median (salary_groups country_name v))"
  unfolding country_salary_def using set_head set_sort_values_desc by metis

lemma round53_huge: "round53 9007199254740993 = 9007199254740992"
proof -
  have "ulp_exp 9007199254740993 = Suc (ulp_exp (9007199254740993 div 2))"
    by (rule ulp_exp_step) simp
  also have "\<dots> = Suc 0" by (simp add: ulp_exp_small del: ulp_exp.simps)
  finally show ?thesis by (simp add: round53_def del: ulp_exp.simps)
qed

lemma job_huge: "job_salary stable_desc huge_df = [(''Data Scientist'', Some 9007199254740992)]"
  by (simp add: job_salary_def head_def agg_eq huge_df_def median_def present_def round53_huge
        sort_values_desc_def non_nans_def nans_def stable_desc_def)

lemma job_missing: "job_salary stable_desc missing_df = [(''Analyst'', None)]"
  by (simp add: job_salary_def head_def agg_eq missing_df_def median_def present_def
        sort_values_desc_def non_nans_def nans_def stable_desc_def)

lemma median_exact_group:
  assumes "exact_group cells"
  shows "\<exists>m. median cells = Some m \<and> statistical_median (present cells) m
           \<and> (\<forall>m'. statistical_median (present cells) m' \<longrightarrow> m' = m)"
proof -
  from assms have "present cells \<noteq> []" "\<forall>x \<in> set (present cells). \<bar>x\<bar> \<le> 2 ^ 52"
    by (simp_all add: exact_group_def)
  from median_within[OF this] obtain m where
    m: "median cells = Some m" "statistical_median (present cells) m" by blast
  have "\<forall>m'. statistical_median (present cells) m' \<longrightarrow> m' = m"
    using statistical_median_unique[OF _ m(2)] by blast
  with m show ?thesis by blast
qed

lemma agg_exact_group:
  assumes "(k, c) \<in> set (group_median (salary_groups key df))"
    and "exact_group (map salary_in_usd (filter (\<lambda>r. key r = k) df))"
  shows "\<exists>m. c = Some m
           \<and> statistical_median (present (map salary_in_usd (filter (\<lambda>r. key r = k) df))) m
           \<and> (\<forall>m'. statistical_median
                       (present (map salary_in_usd (filter (\<lambda>r. key r = k) df))) m'
                  \<longrightarrow> m' = m)"
  using median_exact_group[OF assms(2)] unfolding agg_member(2)[OF assms(1), symmetric] .

text \<open>
  Claim C5, as amended. For a group that holds a salary, with every salary at most
  \<open>2 ^ 52\<close> in absolute value, the value an aggregate reports is a number, and it is
  the statistical median of the salaries the group holds: with an odd count the salary
  of middle rank, with an even count the mean of the salaries of the two middle ranks;
  that value is unique. \<open>[100, 200, 300, 400]\<close> gives 250, \<open>[100, 200, 300]\<close> gives
  200, a single salary gives itself.
\<close>

theorem median_is_statistical_median:
  "(\<forall>(k, c) \<in> set (group_median (salary_groups key df)).
       exact_group (map salary_in_usd (filter (\<lambda>r. key r = k) df))
       \<longrightarrow> (\<exists>m. c = Some m
             \<and> statistical_median
                  (present (map salary_in_usd (filter (\<lambda>r. key r = k) df))) m
             \<and> (\<forall>m'. statistical_median
                         (present (map salary_in_usd (filter (\<lambda>r. key r = k) df))) m'
                    \<longrightarrow> m' = m)))
   \<and> (sorter_ok srt \<longrightarrow>
        (\<forall>(k, c) \<in> set (job_salary srt v).
           exact_group (map salary_in_usd (filter (\<lambda>r. job_title r = k) v))
           \<longrightarrow> (\<exists>m. c = Some m
                 \<and> statistical_median
                      (present (map salary_in_usd (filter (\<lambda>r. job_title r = k) v))) m
                 \<and> (\<forall>m'. statistical_median
                         (present (map salary_in_usd (filter (\<lambda>r. job_title r = k) v))) m'
                    \<longrightarrow> m' = m))))
   \<and> (exact_group cells
        \<longrightarrow> (\<exists>m. median cells = Some m \<and> statistical_median (present cells) m
               \<and> (\<forall>m'. statistical_median (present cells) m' \<longrightarrow> m' = m)))
   \<and> median [Some 100, Some 200, Some 300, Some 400] = Some 250
   \<and> median [Some 100, Some 200, Some 300] = Some 200
   \<and> (\<bar>x\<bar> \<le> 2 ^ 52 \<longrightarrow> median [Some x] = Some (of_int x))"
proof (intro conjI)
  show "\<forall>(k, c) \<in> set (group_median (salary_groups key df)).
       exact_group (map salary_in_usd (filter (\<lambda>r. key r = k) df))
       \<longrightarrow> (\<exists>m. c = Some m
             \<and> statistical_median
                  (present (map salary_in_usd (filter (\<lambda>r. key r = k) df))) m
             \<and> (\<forall>m'. statistical_median
                         (present (map salary_in_usd (filter (\<lambda>r. key r = k) df))) m'
                    \<longrightarrow> m' = m))"
  proof (intro ballI)
    fix p assume m: "p \<in> set (group_median (salary_groups key df))"
    obtain k c where p: "p = (k, c)" by (cases p)
    show "case p of (k, c) \<Rightarrow>
       exact_group (map salary_in_usd (filter (\<lambda>r. key r = k) df))
       \<longrightarrow> (\<exists>m. c = Some m
             \<and> statistical_median
                  (present (map salary_in_usd (filter (\<lambda>r. key r = k) df))) m
             \<and> (\<forall>m'. statistical_median
                         (present (map salary_in_usd (filter (\<lambda>r. key r = k) df))) m'
                    \<longrightarrow> m' = m))"
      unfolding p prod.case by (rule impI) (rule agg_exact_group[OF m[unfolded p]])
  qed
  show "sorter_ok srt \<longrightarrow>
        (\<forall>(k, c) \<in> set (job_salary srt v).
           exact_group (map salary_in_usd (filter (\<lambda>r. job_title r = k) v))
           \<longrightarrow> (\<exists>m. c = Some m
                 \<and> statistical_median
                      (present (map salary_in_usd (filter (\<lambda>r. job_title r = k) v))) m
                 \<and> (\<forall>m'. statistical_median
                         (present (map salary_in_usd (filter (\<lambda>r. job_title r = k) v))) m'
                    \<longrightarrow> m' = m)))"
  proof (intro impI ballI)
    fix p assume ok: "sorter_ok srt" and m: "p \<in> set (job_salary srt v)"
    obtain k c where p: "p = (k, c)" by (cases p)
    from m job_salary_subset[OF ok]
    have g: "(k, c) \<in> set (group_median (salary_groups job_title v))"
      unfolding p by (rule subsetD[rotated])
    show "case p of (k, c) \<Rightarrow>
           exact_group (map salary_in_usd (filter (\<lambda>r. job_title r = k) v))
           \<longrightarrow> (\<exists>m. c = Some m
                 \<and> statistical_median
                      (present (map salary_in_usd (filter (\<lambda>r. job_title r = k) v))) m
                 \<and> (\<forall>m'. statistical_median
                         (present (map salary_in_usd (filter (\<lambda>r. job_title r = k) v))) m'
                    \<longrightarrow> m' = m))"
      unfolding p prod.case by (rule impI) (rule agg_exact_group[OF g])
  qed
  show "exact_group cells
        \<longrightarrow> (\<exists>m. median cells = Some m \<and> statistical_median (present cells) m
               \<and> (\<forall>m'. statistical_median (present cells) m' \<longrightarrow> m' = m))"
    by (rule impI) (rule median_exact_group)
  show "\<bar>x\<bar> \<le> 2 ^ 52 \<longrightarrow> median [Some x] = Some (of_int x)"
  proof
    assume "\<bar>x\<bar> \<le> 2 ^ 52"
    then have "\<bar>x\<bar> \<le> 2 ^ 53" by simp
    then have "round53 x = x" by (rule round53_exact)
    then show "median [Some x] = Some (of_int x)" by (simp add: median_def present_def)
  qed
qed (simp_all add: median_eval)

theorem median_is_statistical_median_witness:
  "sorter_ok stable_desc
   \<and> job_salary stable_desc sample_df
       = [(''Data Scientist'', Some 160000), (''Analyst'', Some 50000)]
   \<and> exact_group (map salary_in_usd (filter (\<lambda>r. job_title r = ''Data Scientist'') sample_df))
   \<and> present (map salary_in_usd (filter (\<lambda>r. job_title r = ''Data Scientist'') sample_df))
       = [150000, 170000]
   \<and> statistical_median [150000, 170000] 160000
   \<and> median [Some 150000, Some 170000] = Some 160000"
proof -
  note t = median_is_statistical_median[where key = job_title and df = sample_df
             and srt = stable_desc and v = sample_df and cells = "[Some 150000, Some 170000]"
             and x = 0]
  note a = t[THEN conjunct2, THEN conjunct1, THEN mp, OF stable_desc_ok]
  have p: "present (map salary_in_usd (filter (\<lambda>r. job_title r = ''Data Scientist'') sample_df))
       = [150000, 170000]"
    by (simp add: sample_df_def present_def)
  have e: "exact_group
             (map salary_in_usd (filter (\<lambda>r. job_title r = ''Data Scientist'') sample_df))"
    unfolding exact_group_def p by simp
  have "(''Data Scientist'', Some 160000) \<in> set (job_salary stable_desc sample_df)"
    by (simp add: job_sample)
  note b = bspec[OF a this, unfolded prod.case, THEN mp, OF e, unfolded p]
  then obtain m :: rat where m: "Some 160000 = Some m" "statistical_median [150000, 170000] m"
    by (elim exE conjE)
  from m(1) have "m = 160000" by (simp only: option.inject)
  with m(2) have s: "statistical_median [150000, 170000] 160000" by (simp only:)
  have "median [Some 150000, Some 170000] = Some 160000" by (simp add: median_eval)
  with s e p stable_desc_ok job_sample show ?thesis by (intro conjI)
qed

text \<open>
  The claim as stated, for every group that is not empty, fails in two ways. A single
  salary of \<open>2 ^ 53 + 1\<close> is reported as \<open>2 ^ 53\<close>: the median is computed in float64,
  which does not hold the salary. A group whose only salary cell is empty reports
  NaN.
\<close>

theorem median_counterexample:
  "map salary_in_usd huge_df = [Some 9007199254740993]
   \<and> job_salary stable_desc huge_df = [(''Data Scientist'', Some 9007199254740992)]
   \<and> statistical_median [9007199254740993] 9007199254740993
   \<and> \<not> statistical_median [9007199254740993] 9007199254740992
   \<and> map salary_in_usd missing_df = [None]
   \<and> job_salary stable_desc missing_df = [(''Analyst'', None)]"
proof -
  have "statistical_median [9007199254740993] 9007199254740993"
       "\<not> statistical_median [9007199254740993] 9007199254740992"
    by (simp_all add: statistical_median_def has_rank_def)
  moreover have "map salary_in_usd huge_df = [Some 9007199254740993]"
    "map salary_in_usd missing_df = [None]"
    by (simp_all add: huge_df_def missing_df_def)
  ultimately show ?thesis by (simp add: job_huge job_missing)
qed

subsection \<open>The trend\<close>







subsection \<open>Truncation to the first rows\<close>

lemma top_n_facts:
  assumes "sorter_ok srt"
  shows "length (head n (sort_values_desc srt (group_median (salary_groups key v))))
           = min n (card (key ` set v))"
    and "distinct (map fst (head n (sort_values_desc srt (group_median (salary_groups key v)))))"
    and "card (key ` set v) \<le> n \<Longrightarrow>
           head n (sort_values_desc srt (group_median (salary_groups key v)))
             = sort_values_desc srt (group_median (salary_groups key v))"
    and "card (key ` set v) \<le> n \<Longrightarrow>
           fst ` set (head n (sort_values_desc srt (group_median (salary_groups key v))))
             = key ` set v"
    and "descending (head n (sort_values_desc srt (group_median (salary_groups key v))))"
proof -
  let ?G = "group_median (salary_groups key v)"
  let ?S = "sort_values_desc srt ?G"
  have len: "length ?S = card (key ` set v)"
    by (simp only: length_sort_values_desc[OF assms] agg_length)
  show "length (head n ?S) = min n (card (key ` set v))"
    by (simp add: head_def len min.commute)
  have "distinct (map fst ?S)"
    by (rule distinct_sort_values_desc[OF assms agg_keys_distinct])
  then have "distinct (take n (map fst ?S))" by (rule distinct_take)
  then show "distinct (map fst (head n ?S))" by (simp add: head_def take_map)
  show all: "head n ?S = ?S" if "card (key ` set v) \<le> n"
    using that len by (simp add: head_def)
  show "fst ` set (head n ?S) = key ` set v" if "card (key ` set v) \<le> n"
    by (simp only: all[OF that] set_sort_values_desc[OF assms] agg_keys_set)
  have "descending ?S" by (rule descending_sort_values_desc[OF assms])
  then show "descending (head n ?S)"
    by (simp add: descending_def head_def sorted_wrt_take)
qed

text \<open>
  Claim C6. With a sort that orders the groups by descending median, the top-job
  aggregate is the first 10 rows of the sorted groups and the country aggregate the
  first 20. Their lengths are the number of distinct job titles (countries) where that
  is at most 10 (20), and 10 (20) otherwise; no key occurs twice; and where there are
  at most 10 (20) distinct keys the aggregate is the whole sorted list, one row for
  each distinct key.
\<close>

theorem head_returns_all_or_first:
  assumes "sorter_ok srt"
  shows
   "job_salary srt v = take 10 (sort_values_desc srt (group_median (salary_groups job_title v)))
    \<and> descending (sort_values_desc srt (group_median (salary_groups job_title v)))
    \<and> mset (sort_values_desc srt (group_median (salary_groups job_title v)))
        = mset (group_median (salary_groups job_title v))
    \<and> length (job_salary srt v) = min 10 (card (job_title ` set v))
    \<and> distinct (map fst (job_salary srt v))
    \<and> (card (job_title ` set v) \<le> 10 \<longrightarrow>
          job_salary srt v = sort_values_desc srt (group_median (salary_groups job_title v))
          \<and> fst ` set (job_salary srt v) = job_title ` set v)
    \<and> country_salary srt v
        = take 20 (sort_values_desc srt (group_median (salary_groups country_name v)))
    \<and> descending (sort_values_desc srt (group_median (salary_groups country_name v)))
    \<and> mset (sort_values_desc srt (group_median (salary_groups country_name v)))
        = mset (group_median (salary_groups country_name v))
    \<and> length (country_salary srt v) = min 20 (card (country_name ` set v))
    \<and> distinct (map fst (country_salary srt v))
    \<and> (card (country_name ` set v) \<le> 20 \<longrightarrow>
          country_salary srt v
            = sort_values_desc srt (group_median (salary_groups country_name v))
          \<and> fst ` set (country_salary srt v) = country_name ` set v)"
  using top_n_facts(1-4)[OF assms, where n = 10 and key = job_title and v = v]
        top_n_facts(1-4)[OF assms, where n = 20 and key = country_name and v = v]
        descending_sort_values_desc[OF assms] mset_sort_values_desc[OF assms]
  by (simp add: job_salary_def country_salary_def head_def)


lemma titles_eleven:
  "map job_title eleven_df
     = [''A'', ''B'', ''C'', ''D'', ''E'', ''F'', ''G'', ''H'', ''I'', ''J'', ''K'']"
  by (simp add: eleven_df_def titled_def)

lemma agg_eleven:
  "group_median (salary_groups job_title eleven_df) =
     [(''A'', Some 1000), (''B'', Some 2000), (''C'', Some 3000), (''D'', Some 4000),
      (''E'', Some 5000), (''F'', Some 6000), (''G'', Some 7000), (''H'', Some 8000),
      (''I'', Some 9000), (''J'', Some 10000), (''K'', Some 11000)]"
  by (simp add: agg_eq titles_eleven) (simp add: eleven_df_def titled_def median_eval)

lemma job_eleven:
  "job_salary stable_desc eleven_df =
     [(''K'', Some 11000), (''J'', Some 10000), (''I'', Some 9000), (''H'', Some 8000),
      (''G'', Some 7000), (''F'', Some 6000), (''E'', Some 5000), (''D'', Some 4000),
      (''C'', Some 3000), (''B'', Some 2000)]"
  by (simp add: job_salary_def head_def agg_eleven sort_values_desc_def non_nans_def
        nans_def stable_desc_def)

lemma card_titles_eleven: "card (job_title ` set eleven_df) = 11"
proof -
  have "distinct (map job_title eleven_df)" by (simp add: titles_eleven)
  then have "card (set (map job_title eleven_df)) = length (map job_title eleven_df)"
    by (rule distinct_card)
  then show ?thesis by (simp add: eleven_df_def)
qed

theorem head_returns_all_or_first_witness:
  "sorter_ok stable_desc
   \<and> card (job_title ` set sample_df) = 2
   \<and> job_salary stable_desc sample_df
       = [(''Data Scientist'', Some 160000), (''Analyst'', Some 50000)]
   \<and> fst ` set (job_salary stable_desc sample_df) = job_title ` set sample_df
   \<and> card (job_title ` set eleven_df) = 11
   \<and> length (job_salary stable_desc eleven_df) = 10
   \<and> map fst (job_salary stable_desc eleven_df)
       = [''K'', ''J'', ''I'', ''H'', ''G'', ''F'', ''E'', ''D'', ''C'', ''B'']"
proof -
  have c: "card (job_title ` set sample_df) = 2" by (simp add: sample_df_def)
  note a = head_returns_all_or_first[OF stable_desc_ok, of sample_df]
  note b = head_returns_all_or_first[OF stable_desc_ok, of eleven_df]
  note i = a[THEN conjunct2, THEN conjunct2, THEN conjunct2, THEN conjunct2, THEN conjunct2,
             THEN conjunct1]
  note l = b[THEN conjunct2, THEN conjunct2, THEN conjunct2, THEN conjunct1]
  have c10: "card (job_title ` set sample_df) \<le> 10" using c by simp
  have "fst ` set (job_salary stable_desc sample_df) = job_title ` set sample_df"
    by (rule i[THEN mp, OF c10, THEN conjunct2])
  moreover from l have "length (job_salary stable_desc eleven_df) = 10"
    by (simp add: card_titles_eleven)
  ultimately show ?thesis
    using stable_desc_ok c card_titles_eleven by (simp add: job_sample job_eleven)
qed

subsection \<open>Groups with equal medians\<close>

lemma ties_sorted:
  assumes "sorter_stable srt"
  shows "sorted (map fst (filter (\<lambda>p. snd p = c)
           (head n (sort_values_desc srt (group_median (salary_groups key v))))))"
proof -
  let ?G = "group_median (salary_groups key v)"
  let ?P = "\<lambda>p::string \<times> float64. snd p = c"
  obtain j where "filter ?P (take n (sort_values_desc srt ?G))
                    = take j (filter ?P (sort_values_desc srt ?G))"
    using filter_take_prefix by blast
  then have e: "filter ?P (head n (sort_values_desc srt ?G)) = take j (filter ?P ?G)"
    by (simp add: head_def ties_sort_values_desc[OF assms])
  have "sorted (map fst (filter ?P ?G))"
    by (rule sorted_filter[OF agg_keys_sorted])
  then have "sorted (take j (map fst (filter ?P ?G)))"
    by (rule sorted_wrt_take)
  then show ?thesis by (simp only: e take_map)
qed

lemma tie_job_stable:
  "job_salary stable_desc tie_df = [(''Abe'', Some 100000), (''Zed'', Some 100000)]"
  by (simp add: job_salary_def head_def agg_eq tie_df_def median_eval sort_values_desc_def
        non_nans_def nans_def stable_desc_def)

lemma tie_country_stable:
  "country_salary stable_desc tie_df
     = [(''Germany'', Some 100000), (''United States'', Some 100000)]"
  by (simp add: country_salary_def head_def agg_eq tie_df_def median_eval sort_values_desc_def
        non_nans_def nans_def stable_desc_def)

lemma tie_job_reversed:
  "job_salary ties_reversed_desc tie_df = [(''Zed'', Some 100000), (''Abe'', Some 100000)]"
  by (simp add: job_salary_def head_def agg_eq tie_df_def median_eval sort_values_desc_def
        non_nans_def nans_def ties_reversed_desc_def)

lemma tie_groups:
  "group_median (salary_groups job_title tie_df)
     = [(''Abe'', Some 100000), (''Zed'', Some 100000)]"
  by (simp add: agg_eq tie_df_def median_eval)

text \<open>
  Claim C7, as amended. The top-job and country aggregates are in descending order of
  median. The groups reach the sort in ascending order of their key, because
  \<open>groupby\<close> sorts its keys, not in the order their rows are met in the table; and
  the script asks for no stable sort. Among the groups of one median the order is
  therefore the choice of the sort: where the sort is stable, they appear in ascending
  order of their key.
\<close>

theorem ties_follow_key_order:
  assumes "sorter_ok srt"
  shows
   "descending (job_salary srt v) \<and> descending (country_salary srt v)
    \<and> sorted (map fst (group_median (salary_groups job_title v)))
    \<and> sorted (map fst (group_median (salary_groups country_name v)))
    \<and> (sorter_stable srt \<longrightarrow>
          (\<forall>c. sorted (map fst (filter (\<lambda>p. snd p = c) (job_salary srt v))))
        \<and> (\<forall>c. sorted (map fst (filter (\<lambda>p. snd p = c) (country_salary srt v)))))"
  using top_n_facts(5)[OF assms, where n = 10 and key = job_title and v = v]
        top_n_facts(5)[OF assms, where n = 20 and key = country_name and v = v]
        ties_sorted[where srt = srt and n = 10 and key = job_title and v = v]
        ties_sorted[where srt = srt and n = 20 and key = country_name and v = v]
  by (simp add: job_salary_def country_salary_def agg_keys_sorted)

theorem ties_follow_key_order_witness:
  "sorter_ok stable_desc \<and> sorter_stable stable_desc
   \<and> descending (job_salary stable_desc tie_df)
   \<and> filter (\<lambda>p. snd p = Some 100000) (job_salary stable_desc tie_df)
       = [(''Abe'', Some 100000), (''Zed'', Some 100000)]
   \<and> sorted [''Abe'', ''Zed'']"
proof -
  note t = ties_follow_key_order[OF stable_desc_ok, of tie_df]
  note d = t[THEN conjunct1]
  note s = t[THEN conjunct2, THEN conjunct2, THEN conjunct2, THEN conjunct2, THEN mp,
             OF stable_desc_stable, THEN conjunct1, THEN spec, of "Some 100000"]
  have f: "filter (\<lambda>p. snd p = Some 100000) (job_salary stable_desc tie_df)
       = [(''Abe'', Some 100000), (''Zed'', Some 100000)]"
    by (simp add: tie_job_stable)
  from s have "sorted [''Abe'', ''Zed'']" by (simp add: f)
  with d f stable_desc_ok stable_desc_stable show ?thesis by simp
qed

text \<open>
  The claim as stated fails on \<open>tie_df\<close>, a row titled Zed followed by a row titled
  Abe with the same salary. With a stable sort the aggregates list Abe before Zed and
  Germany before United States, the reverse of the order in which the table meets
  them. With \<open>ties_reversed_desc\<close>, which also orders by descending median, Zed comes
  before Abe although the sort received Abe first: ordering by median does not make a
  sort stable.
\<close>

theorem tie_order_counterexample:
  "sorter_ok stable_desc \<and> sorter_stable stable_desc
   \<and> remdups (map job_title tie_df) = [''Zed'', ''Abe'']
   \<and> job_salary stable_desc tie_df = [(''Abe'', Some 100000), (''Zed'', Some 100000)]
   \<and> map fst (job_salary stable_desc tie_df) \<noteq> remdups (map job_title tie_df)
   \<and> remdups (map country_name tie_df) = [''United States'', ''Germany'']
   \<and> country_salary stable_desc tie_df
       = [(''Germany'', Some 100000), (''United States'', Some 100000)]
   \<and> map fst (country_salary stable_desc tie_df) \<noteq> remdups (map country_name tie_df)
   \<and> sorter_ok ties_reversed_desc
   \<and> group_median (salary_groups job_title tie_df)
       = [(''Abe'', Some 100000), (''Zed'', Some 100000)]
   \<and> job_salary ties_reversed_desc tie_df = [(''Zed'', Some 100000), (''Abe'', Some 100000)]
   \<and> \<not> sorter_stable ties_reversed_desc"
proof -
  have r: "remdups (map job_title tie_df) = [''Zed'', ''Abe'']"
    "remdups (map country_name tie_df) = [''United States'', ''Germany'']"
    by (simp_all add: tie_df_def)
  have n: "\<not> sorter_stable ties_reversed_desc"
  proof
    assume "sorter_stable ties_reversed_desc"
    then have "filter (\<lambda>p. snd p = 1) (ties_reversed_desc [(''a'', 1), (''b'', 1)])
                 = filter (\<lambda>p. snd p = 1) [(''a'', 1), (''b'', 1)]"
      unfolding sorter_stable_def by blast
    then show False by (simp add: ties_reversed_desc_def)
  qed
  show ?thesis
    using stable_desc_ok stable_desc_stable ties_reversed_desc_ok n
    by (simp add: r tie_job_stable tie_country_stable tie_job_reversed tie_groups)
qed

subsection \<open>The summary card\<close>


subsection \<open>Thousands separators\<close>




































lemma thousands_separated_examples:
  "thousands_separated 1234567 ''1,234,567''"
  "\<not> thousands_separated 1234567 ''1234,567''"
  "\<not> thousands_separated 1234567 ''1,234567''"
  "\<not> thousands_separated 1234567 ''1,234,568''"
  "\<not> thousands_separated 160000 ''160000''"
  "\<not> thousands_separated 7 ''007''"
  by (simp_all add: thousands_separated_def decimal_value_def digit_value_def)

subsection \<open>The card on the page\<close>








end
